theory Spec2Isabelle
  imports Complex_Main "HOL-Library.Sublist"
begin

section \<open>JavaScript values shared by the models\<close>

text \<open>
  A property read \<open>obj[key]\<close> on an object literal finds the object's own properties
  first and then the members every plain object inherits from \<open>Object.prototype\<close>.
  The inherited members are functions (or, for \<open>__proto__\<close>, the prototype object):
  truthy values that carry none of the fields the tables below store.
\<close>

datatype 'a js_lookup = Missing | Own 'a | Inherited

text \<open>
  The members of \<open>Object.prototype\<close>. Deno, which runs the edge function, removes the
  \<open>__proto__\<close> accessor; the browser, which runs the Momence client, has it.
\<close>

definition object_prototype_names :: "string list" where
  "object_prototype_names =
     [''constructor'', ''hasOwnProperty'', ''isPrototypeOf'', ''propertyIsEnumerable'',
      ''toLocaleString'', ''toString'', ''valueOf'', ''__defineGetter__'',
      ''__defineSetter__'', ''__lookupGetter__'', ''__lookupSetter__'']"

definition browser_prototype_names :: "string list" where
  "browser_prototype_names = object_prototype_names @ [''__proto__'']"

definition lookup_property :: "string list \<Rightarrow> (string \<times> 'a) list \<Rightarrow> string \<Rightarrow> 'a js_lookup" where
  "lookup_property inherited table key =
     (case map_of table key of
        Some v \<Rightarrow> Own v
      | None \<Rightarrow> if key \<in> set inherited then Inherited else Missing)"

text \<open>Truthiness of a value that is a string or absent: only a non-empty string is truthy.\<close>

fun truthy_string :: "string option \<Rightarrow> bool" where
  "truthy_string None = False"
| "truthy_string (Some s) = (s \<noteq> [])"

text \<open>Values as \<open>JSON.parse\<close> gives them, and \<open>undefined\<close>.\<close>

datatype jsval =
    JUndefined | JNull | JBool bool | JNum real | JStr string
  | JArr "jsval list" | JObj "(string \<times> jsval) list"

section \<open>Routing decision engine (supabase/functions/analyze-ticket/index.ts)\<close>

record category_route =
  cat_department :: string
  teamCode :: string

record subcategory_route =
  sub_department :: string
  sub_priority :: "string option"

definition CATEGORY_ROUTING :: "(string \<times> category_route) list" where
  "CATEGORY_ROUTING =
     [(''Booking & Technology'', \<lparr>cat_department = ''IT/Tech Support'', teamCode = ''operations''\<rparr>),
      (''Customer Service'', \<lparr>cat_department = ''Client Success'', teamCode = ''client-success''\<rparr>),
      (''Health & Safety'', \<lparr>cat_department = ''Operations'', teamCode = ''facilities''\<rparr>),
      (''Retail Management'', \<lparr>cat_department = ''Sales'', teamCode = ''sales''\<rparr>),
      (''Community & Culture'', \<lparr>cat_department = ''HR'', teamCode = ''operations''\<rparr>),
      (''Sales & Marketing'', \<lparr>cat_department = ''Sales'', teamCode = ''sales''\<rparr>),
      (''Special Programs'', \<lparr>cat_department = ''Operations'', teamCode = ''operations''\<rparr>),
      (''Miscellaneous'', \<lparr>cat_department = ''Operations'', teamCode = ''operations''\<rparr>),
      (''Global'', \<lparr>cat_department = ''Management'', teamCode = ''management''\<rparr>)]"

definition SUBCATEGORY_ROUTING :: "(string \<times> subcategory_route) list" where
  "SUBCATEGORY_ROUTING =
     [(''Payment Processing'', \<lparr>sub_department = ''Finance'', sub_priority = Some ''high''\<rparr>),
      (''Injury During Class'', \<lparr>sub_department = ''HR'', sub_priority = Some ''critical''\<rparr>),
      (''Medical Disclosure'', \<lparr>sub_department = ''HR'', sub_priority = Some ''high''\<rparr>),
      (''Theft'', \<lparr>sub_department = ''Security'', sub_priority = Some ''critical''\<rparr>),
      (''Emergency'', \<lparr>sub_department = ''Management'', sub_priority = Some ''critical''\<rparr>),
      (''Staff Misconduct'', \<lparr>sub_department = ''HR'', sub_priority = Some ''high''\<rparr>),
      (''Discrimination'', \<lparr>sub_department = ''HR'', sub_priority = Some ''high''\<rparr>)]"

text \<open>
  The object the classifier is asked for, after \<open>JSON.parse\<close>. A field is \<open>None\<close>
  when the object does not have it; the department and the priority are strings and the
  confidence is a number (a double, carried as the real number it denotes).
\<close>

record ai_response =
  department :: "string option"
  priority :: "string option"
  suggestedTags :: "string list"
  needsEscalation :: bool
  escalationReason :: "string option"
  routingConfidence :: "real option"
  analysis :: "string option"

text \<open>
  The literal \<open>0.7\<close> of line 121 is the double nearest to seven tenths. A missing
  confidence is \<open>undefined\<close>, which compares as NaN: \<open>undefined < 0.7\<close> is false.
\<close>

definition confidence_threshold :: real where
  "confidence_threshold = 3152519739159347 / 4503599627370496"

fun below_threshold :: "real option \<Rightarrow> bool" where
  "below_threshold None = False"
| "below_threshold (Some c) = (c < confidence_threshold)"

record ticket_request =
  title :: string
  description :: string
  category :: "string option"
  subcategory :: "string option"
  studioId :: "string option"

text \<open>Lines 107-116: the subcategory override.\<close>

definition apply_subcategory_override :: "string option \<Rightarrow> ai_response \<Rightarrow> ai_response" where
  "apply_subcategory_override sub ai =
     (if truthy_string sub then
        (case lookup_property object_prototype_names SUBCATEGORY_ROUTING (the sub) of
           Own override \<Rightarrow>
             (let ai1 = (if sub_department override \<noteq> []
                         then ai\<lparr>department := Some (sub_department override)\<rparr> else ai)
              in if truthy_string (sub_priority override)
                 then ai1\<lparr>priority := sub_priority override\<rparr> else ai1)
         | Inherited \<Rightarrow> ai
         | Missing \<Rightarrow> ai)
      else ai)"

text \<open>
  Lines 118-124: the category default. An inherited member has no \<open>department\<close>, so
  the assignment stores \<open>undefined\<close> there.
\<close>

definition apply_category_default :: "string option \<Rightarrow> ai_response \<Rightarrow> ai_response" where
  "apply_category_default cat ai =
     (if truthy_string cat then
        (case lookup_property object_prototype_names CATEGORY_ROUTING (the cat) of
           Own categoryDefault \<Rightarrow>
             (if \<not> truthy_string (department ai) \<or> below_threshold (routingConfidence ai)
              then ai\<lparr>department := Some (cat_department categoryDefault)\<rparr> else ai)
         | Inherited \<Rightarrow>
             (if \<not> truthy_string (department ai) \<or> below_threshold (routingConfidence ai)
              then ai\<lparr>department := None\<rparr> else ai)
         | Missing \<Rightarrow> ai)
      else ai)"

text \<open>
  What \<open>JSON.parse\<close> gives when the content is valid JSON but not an object:
  \<open>null\<close> (also for a completion whose \<open>content\<close> is \<open>null\<close>), a boolean, a number,
  a string or an array.
\<close>

datatype non_object =
    NullContent | BooleanContent bool | NumberContent real | StringContent string
  | ArrayContent "jsval list"

text \<open>
  What the \<open>try\<close> block can throw: the two errors the handler raises itself; any
  error of the runtime with its message (a rejected \<open>fetch\<close>, a body that is not JSON,
  a completion without \<open>choices[0].message.content\<close>, content that \<open>JSON.parse\<close>
  refuses); and the TypeError of lines 111-122 on a value that has no properties.
\<close>

datatype failure = NotConfigured | OpenAIError nat | Thrown string | PropertyTypeError

text \<open>
  The completion as lines 104-105 leave it: reading or parsing throws (with the
  message), or \<open>aiResponse\<close> is a value that is not an object, or it is the object.
\<close>

datatype completion = Unreadable string | NotAnObject non_object | Routing ai_response

text \<open>
  The classifier's answer as the handler sees it: \<open>fetch\<close> rejects, or a response
  arrives with a status and a body.
\<close>

datatype classifier_reply =
    FetchRejected string
  | HttpReply nat completion

definition response_ok :: "nat \<Rightarrow> bool" where
  "response_ok st = (200 \<le> st \<and> st \<le> 299)"

text \<open>
  The response of the handler: its status, and the JSON of its body, which is a decision
  (with the \<open>error\<close> field in the fallback), or another value, or absent.
\<close>

record http_reply =
  status :: nat
  error :: "failure option"
  decision :: "ai_response option"
  other_body :: "non_object option"

definition fallback_routing :: ai_response where
  "fallback_routing =
     \<lparr>department = Some ''Operations'', priority = Some ''medium'', suggestedTags = [],
      needsEscalation = False, escalationReason = None, routingConfidence = Some 0,
      analysis = Some ''Auto-routing failed, using default assignment''\<rparr>"

text \<open>
  Lines 107-124 when \<open>aiResponse\<close> is not an object. The override block writes a
  property when the subcategory has an entry of its own with a department or a priority;
  the category block reads \<open>aiResponse.department\<close> when the category is found, and,
  the department being \<open>undefined\<close> on a primitive, goes on to write it. Reading a
  property of \<open>null\<close> throws, and so does writing a property of \<open>null\<close> or, the module
  being strict code, of a boolean, a number or a string. An array takes the writes, and
  \<open>JSON.stringify\<close> leaves them out of the body.
\<close>

definition override_writes :: "string option \<Rightarrow> bool" where
  "override_writes sub =
     (truthy_string sub \<and>
      (case lookup_property object_prototype_names SUBCATEGORY_ROUTING (the sub) of
         Own override \<Rightarrow> sub_department override \<noteq> [] \<or> truthy_string (sub_priority override)
       | Inherited \<Rightarrow> False
       | Missing \<Rightarrow> False))"

definition category_found :: "string option \<Rightarrow> bool" where
  "category_found cat =
     (truthy_string cat \<and>
      (case lookup_property object_prototype_names CATEGORY_ROUTING (the cat) of
         Own categoryDefault \<Rightarrow> True
       | Inherited \<Rightarrow> True
       | Missing \<Rightarrow> False))"

fun route_non_object :: "ticket_request \<Rightarrow> non_object \<Rightarrow> failure + non_object" where
  "route_non_object req (ArrayContent xs) = Inr (ArrayContent xs)"
| "route_non_object req v =
     (if override_writes (subcategory req) \<or> category_found (category req)
      then Inl PropertyTypeError else Inr v)"

text \<open>
  The \<open>try\<close> block of lines 40-130: \<open>Inl\<close> is a throw, \<open>Inr\<close> the value sent back (a
  value that is not an object, or the decision).
\<close>

definition try_route ::
  "string option \<Rightarrow> string + ticket_request \<Rightarrow> classifier_reply
   \<Rightarrow> failure + (non_object + ai_response)" where
  "try_route openAIApiKey req_json reply =
     (case req_json of
        Inl msg \<Rightarrow> Inl (Thrown msg)
      | Inr req \<Rightarrow>
          if \<not> truthy_string openAIApiKey then Inl NotConfigured
          else
            (case reply of
               FetchRejected msg \<Rightarrow> Inl (Thrown msg)
             | HttpReply st body \<Rightarrow>
                 if \<not> response_ok st then Inl (OpenAIError st)
                 else
                   (case body of
                      Unreadable msg \<Rightarrow> Inl (Thrown msg)
                    | NotAnObject v \<Rightarrow>
                        (case route_non_object req v of
                           Inl e \<Rightarrow> Inl e
                         | Inr v' \<Rightarrow> Inr (Inl v'))
                    | Routing aiResponse \<Rightarrow>
                        Inr (Inr (apply_category_default (category req)
                                    (apply_subcategory_override (subcategory req) aiResponse))))))"

text \<open>The handler: the CORS preflight, then the \<open>try\<close> block and its \<open>catch\<close>.\<close>

definition analyze_ticket ::
  "string option \<Rightarrow> string \<Rightarrow> string + ticket_request \<Rightarrow> classifier_reply \<Rightarrow> http_reply" where
  "analyze_ticket openAIApiKey req_method req_json reply =
     (if req_method = ''OPTIONS''
      then \<lparr>status = 200, error = None, decision = None, other_body = None\<rparr>
      else
        (case try_route openAIApiKey req_json reply of
           Inr (Inr aiResponse) \<Rightarrow>
             \<lparr>status = 200, error = None, decision = Some aiResponse, other_body = None\<rparr>
         | Inr (Inl v) \<Rightarrow>
             \<lparr>status = 200, error = None, decision = None, other_body = Some v\<rparr>
         | Inl e \<Rightarrow>
             \<lparr>status = 200, error = Some e, decision = Some fallback_routing,
              other_body = None\<rparr>))"

text \<open>
  The failures of the classification call that raise an error in the handler: the fetch
  rejects, the status is not a success, or the body or its content cannot be read.
\<close>

fun classifier_failed :: "classifier_reply \<Rightarrow> bool" where
  "classifier_failed (FetchRejected msg) = True"
| "classifier_failed (HttpReply st (Unreadable msg)) = True"
| "classifier_failed (HttpReply st (NotAnObject v)) = (\<not> response_ok st)"
| "classifier_failed (HttpReply st (Routing ai)) = (\<not> response_ok st)"

text \<open>
  In the words of the tables: the ticket's subcategory is a key of the override table,
  or its category is a key of the category table or the name of an inherited member.
\<close>

definition table_entry_applies :: "ticket_request \<Rightarrow> bool" where
  "table_entry_applies req =
     ((case subcategory req of
         None \<Rightarrow> False
       | Some sub \<Rightarrow> sub \<noteq> [] \<and> map_of SUBCATEGORY_ROUTING sub \<noteq> None)
      \<or> (case category req of
            None \<Rightarrow> False
          | Some cat \<Rightarrow>
              cat \<noteq> [] \<and> (map_of CATEGORY_ROUTING cat \<noteq> None \<or> cat \<in> set object_prototype_names)))"

fun is_array :: "non_object \<Rightarrow> bool" where
  "is_array (ArrayContent xs) = True"
| "is_array v = False"

section \<open>Ticket submission (src/pages/ticket-new.tsx, onSubmit)\<close>

definition priorityOrder :: "string list" where
  "priorityOrder = [''low'', ''medium'', ''high'', ''critical'']"

text \<open>\<open>Array.prototype.indexOf\<close>: the first position of the element, or \<open>-1\<close>.\<close>

fun indexOf :: "'a list \<Rightarrow> 'a \<Rightarrow> int" where
  "indexOf [] x = -1"
| "indexOf (y # ys) x =
     (if y = x then 0 else (let i = indexOf ys x in if i < 0 then -1 else i + 1))"

text \<open>
  Lines 310-317. \<open>routing\<close> is \<open>None\<close> when the invocation gave an error or no data;
  the result is the priority the ticket is stored with.
\<close>

definition submit_priority :: "ai_response option \<Rightarrow> string \<Rightarrow> string" where
  "submit_priority routing user_priority =
     (case routing of
        None \<Rightarrow> user_priority
      | Some aiRouting \<Rightarrow>
          if truthy_string (priority aiRouting) \<and>
             indexOf priorityOrder (the (priority aiRouting)) > indexOf priorityOrder user_priority
          then the (priority aiRouting) else user_priority)"

section \<open>Member normalisation (MomenceAPI.getMembershipStatus)\<close>

text \<open>
  A JavaScript \<open>Date\<close> holds a time value in milliseconds since the epoch, or NaN when
  the string it was built from does not parse.
\<close>

datatype js_date = InvalidDate | TimeValue int

text \<open>
  The two fields of a membership that the status reads. \<open>endDate\<close> is \<open>None\<close> when the
  field is absent (or otherwise falsy); else it is the date \<open>new Date\<close> makes of it.
\<close>

record membership =
  isFrozen :: bool
  endDate :: "js_date option"

text \<open>\<open>endDate < now\<close> compares time values; a comparison with NaN is false.\<close>

fun date_before :: "js_date \<Rightarrow> int \<Rightarrow> bool" where
  "date_before InvalidDate now = False"
| "date_before (TimeValue t) now = (t < now)"

definition getMembershipStatus :: "int \<Rightarrow> membership option \<Rightarrow> string" where
  "getMembershipStatus now m =
     (case m of
        None \<Rightarrow> ''inactive''
      | Some membership \<Rightarrow>
          if isFrozen membership then ''frozen''
          else
            (case endDate membership of
               None \<Rightarrow> ''active''
             | Some d \<Rightarrow> if date_before d now then ''expired'' else ''active''))"

section \<open>The Momence client (class MomenceAPI): values, network and state\<close>

text \<open>
  The token fields of the client are declared as strings, but they hold whatever the
  token endpoint sent, so they are values too.
\<close>

fun truthy :: "jsval \<Rightarrow> bool" where
  "truthy JUndefined = False"
| "truthy JNull = False"
| "truthy (JBool b) = b"
| "truthy (JNum x) = (x \<noteq> 0)"
| "truthy (JStr s) = (s \<noteq> [])"
| "truthy (JArr xs) = True"
| "truthy (JObj kvs) = True"

text \<open>Reading a property of \<open>undefined\<close> or \<open>null\<close> throws a TypeError.\<close>

fun nullish :: "jsval \<Rightarrow> bool" where
  "nullish JUndefined = True"
| "nullish JNull = True"
| "nullish v = False"

text \<open>
  A property read on a value that is not nullish. The client reads only
  \<open>access_token\<close>, \<open>refresh_token\<close>, \<open>refreshToken\<close>, \<open>payload\<close> and \<open>length\<close>, names
  that no prototype provides except \<open>length\<close> of arrays and strings.
\<close>

fun js_prop :: "jsval \<Rightarrow> string \<Rightarrow> jsval" where
  "js_prop (JObj kvs) k = (case map_of kvs k of Some v \<Rightarrow> v | None \<Rightarrow> JUndefined)"
| "js_prop (JArr xs) k = (if k = ''length'' then JNum (real (length xs)) else JUndefined)"
| "js_prop (JStr s) k = (if k = ''length'' then JNum (real (length s)) else JUndefined)"
| "js_prop v k = JUndefined"

definition js_or :: "jsval \<Rightarrow> jsval \<Rightarrow> jsval" where
  "js_or a b = (if truthy a then a else b)"

text \<open>
  The \<open>startsBefore\<close> text of a sessions request: a string the caller gave, or the text
  \<open>YYYY-MM-DDTHH:mm:ssZ\<close> of a whole second, kept as the number of seconds since the
  epoch that it denotes.
\<close>

datatype starts_before = Literal string | IsoSeconds int

text \<open>
  The requests the client sends, all below \<open>baseURL\<close>: the two grants posted to
  \<open>/auth/token\<close> (Basic token, then the form fields) and the GET requests, each with the
  bearer token it carries and the variable parts of its URL.
\<close>

datatype request =
    PasswordGrant string string string
  | RefreshGrant string jsval
  | GetMembers jsval string
  | GetMember jsval string
  | GetMemberSessions jsval string
  | GetMemberMemberships jsval string
  | GetMemberBookings jsval string
  | GetSessions jsval nat nat starts_before "string option"
  | GetSession jsval string

text \<open>
  What \<open>fetch\<close> gives: it rejects, or a response arrives with its status and its body
  (\<open>None\<close> when \<open>response.json()\<close> throws on it).
\<close>

datatype response = Rejected | Response nat "jsval option"

text \<open>
  The world outside the client: the answers the network will give to the next requests,
  in order; the requests sent so far; the clock (milliseconds since the epoch) and the
  local time zone. \<open>localTZA t True\<close> is the offset of local time from UTC at the
  instant \<open>t\<close>, and \<open>localTZA t False\<close> the offset in force at the local time \<open>t\<close>
  (ECMAScript's \<open>LocalTZA\<close>); the two differ across a change of daylight saving time.
  When the answers run out the network is down and \<open>fetch\<close> rejects.
\<close>

record world =
  script :: "response list"
  requests :: "request list"
  clock :: int
  localTZA :: "int \<Rightarrow> bool \<Rightarrow> int"

definition fetch :: "request \<Rightarrow> world \<Rightarrow> response \<times> world" where
  "fetch r w =
     (case script w of
        [] \<Rightarrow> (Rejected, w\<lparr>requests := requests w @ [r]\<rparr>)
      | x # xs \<Rightarrow> (x, w\<lparr>script := xs, requests := requests w @ [r]\<rparr>))"

record momence_api =
  accessToken :: jsval
  refreshToken :: jsval
  baseURL :: string
  authToken :: string
  username :: string
  password :: string

text \<open>The constructor, from the four environment variables (\<open>None\<close> when unset).\<close>

definition or_default :: "string option \<Rightarrow> string \<Rightarrow> string" where
  "or_default v d = (if truthy_string v then the v else d)"

definition new_MomenceAPI ::
  "string option \<Rightarrow> string option \<Rightarrow> string option \<Rightarrow> string option \<Rightarrow> momence_api" where
  "new_MomenceAPI envBaseURL envAuthToken envUsername envPassword =
     \<lparr>accessToken = JStr [], refreshToken = JStr [],
      baseURL = or_default envBaseURL ''https://api.momence.com/api/v2'',
      authToken = or_default envAuthToken [],
      username = or_default envUsername [],
      password = or_default envPassword []\<rparr>"

definition credentials_missing :: "momence_api \<Rightarrow> bool" where
  "credentials_missing api = (authToken api = [] \<or> username api = [] \<or> password api = [])"

subsection \<open>Token manager\<close>

text \<open>
  Each function returns its result, the client's fields and the world as it leaves them.
  A throw inside a \<open>try\<close> block ends in the \<open>catch\<close>, which returns the failure value;
  what was assigned and sent before the throw stays.
\<close>

definition authenticate :: "momence_api \<Rightarrow> world \<Rightarrow> bool \<times> momence_api \<times> world" where
  "authenticate api w =
     (if credentials_missing api then (False, api, w)
      else
        (case fetch (PasswordGrant (authToken api) (username api) (password api)) w of
           (Rejected, w1) \<Rightarrow> (False, api, w1)
         | (Response st body, w1) \<Rightarrow>
             if \<not> response_ok st then (False, api, w1)
             else
               (case body of
                  None \<Rightarrow> (False, api, w1)
                | Some data \<Rightarrow>
                    if nullish data then (False, api, w1)
                    else (True,
                          api\<lparr>accessToken := js_prop data ''access_token'',
                              refreshToken := js_or (js_prop data ''refresh_token'')
                                                (js_prop data ''refreshToken'')\<rparr>,
                          w1))))"

definition refreshAccessToken :: "momence_api \<Rightarrow> world \<Rightarrow> bool \<times> momence_api \<times> world" where
  "refreshAccessToken api w =
     (case fetch (RefreshGrant (authToken api) (refreshToken api)) w of
        (Rejected, w1) \<Rightarrow> (False, api, w1)
      | (Response st body, w1) \<Rightarrow>
          if \<not> response_ok st then (False, api, w1)
          else
            (case body of
               None \<Rightarrow> (False, api, w1)
             | Some data \<Rightarrow>
                 if nullish data then (False, api, w1)
                 else (True,
                       api\<lparr>accessToken := js_prop data ''access_token'',
                           refreshToken := js_prop data ''refreshToken''\<rparr>,
                       w1)))"

text \<open>No call lengthens the script, and a response that arrived shortened it.\<close>

lemma fetch_script_le: "fetch r w = (x, w1) \<Longrightarrow> length (script w1) \<le> length (script w)"
  by (auto simp: fetch_def split: list.splits)

lemma fetch_response_lt:
  "fetch r w = (Response st body, w1) \<Longrightarrow> length (script w1) < length (script w)"
  by (auto simp: fetch_def split: list.splits)

lemma authenticate_script_le:
  "authenticate api w = (b, api1, w1) \<Longrightarrow> length (script w1) \<le> length (script w)"
  by (auto simp: authenticate_def dest: fetch_script_le
      split: if_splits prod.splits response.splits option.splits)

lemma refreshAccessToken_script_le:
  "refreshAccessToken api w = (b, api1, w1) \<Longrightarrow> length (script w1) \<le> length (script w)"
  by (auto simp: refreshAccessToken_def dest: fetch_script_le
      split: if_splits prod.splits response.splits option.splits)

lemma ensure_token_script_le:
  "(if \<not> truthy (accessToken api) then authenticate api w else (True, api, w)) = (b, api1, w1)
   \<Longrightarrow> length (script w1) \<le> length (script w)"
  by (auto split: if_splits dest: authenticate_script_le)

subsection \<open>Member operations\<close>

function searchCustomers ::
  "string \<Rightarrow> momence_api \<Rightarrow> world \<Rightarrow> jsval \<times> momence_api \<times> world" where
  "searchCustomers query api w =
     (if credentials_missing api then (JArr [], api, w)
      else
        (case (if \<not> truthy (accessToken api) then authenticate api w else (True, api, w)) of
           (False, api1, w1) \<Rightarrow> (JArr [], api1, w1)
         | (True, api1, w1) \<Rightarrow>
             (case fetch (GetMembers (accessToken api1) query) w1 of
                (Rejected, w2) \<Rightarrow> (JArr [], api1, w2)
              | (Response st body, w2) \<Rightarrow>
                  if st = 401 then
                    (case refreshAccessToken api1 w2 of
                       (True, api3, w3) \<Rightarrow> searchCustomers query api3 w3
                     | (False, api3, w3) \<Rightarrow> (JArr [], api3, w3))
                  else if \<not> response_ok st then (JArr [], api1, w2)
                  else
                    (case body of
                       None \<Rightarrow> (JArr [], api1, w2)
                     | Some data \<Rightarrow>
                         if nullish data then (JArr [], api1, w2)
                         else (js_or (js_prop data ''payload'') (JArr []), api1, w2)))))"
  by pat_completeness auto
termination
proof (relation "measure (\<lambda>(query, api, w). length (script w))", goal_cases)
  case 1
  show ?case by simp
next
  case (2 query api w x y xa ya xb yb x21 x22 xc yc xd yd)
  from 2(2,4) have a: "length (script ya) \<le> length (script w)"
    by (auto dest: ensure_token_script_le [OF sym])
  from 2(5,6) have b: "length (script yb) < length (script ya)"
    by (auto dest: fetch_response_lt [OF sym])
  from 2(8,10) have c: "length (script yd) \<le> length (script yb)"
    by (auto dest: refreshAccessToken_script_le [OF sym])
  from a b c show ?case by simp
qed

declare searchCustomers.simps [simp del]

text \<open>
  The object \<open>getCustomerById\<close> returns: the member's own fields (the spread of
  \<open>memberData\<close>, kept whole here) and the four fields written over them.
\<close>

record customer_data =
  memberData :: jsval
  sessions :: jsval
  activeMemberships :: jsval
  totalSessions :: jsval
  totalMemberships :: jsval

text \<open>
  \<open>sessionsData\<close> and \<open>membershipsData\<close> start as \<open>{payload: []}\<close> and are replaced by
  the parsed body only when the response is ok.
\<close>

definition payload_or_empty :: "nat \<Rightarrow> jsval option \<Rightarrow> jsval option" where
  "payload_or_empty st body =
     (if response_ok st then body else Some (JObj [(''payload'', JArr [])]))"

function getCustomerById ::
  "string \<Rightarrow> momence_api \<Rightarrow> world \<Rightarrow> customer_data option \<times> momence_api \<times> world" where
  "getCustomerById memberId api w =
     (case (if \<not> truthy (accessToken api) then authenticate api w else (True, api, w)) of
        (authSuccess, api1, w1) \<Rightarrow>
          (case fetch (GetMember (accessToken api1) memberId) w1 of
             (Rejected, w2) \<Rightarrow> (None, api1, w2)
           | (Response st body, w2) \<Rightarrow>
               if st = 401 then
                 (case refreshAccessToken api1 w2 of
                    (refreshSuccess, api3, w3) \<Rightarrow> getCustomerById memberId api3 w3)
               else if \<not> response_ok st then (None, api1, w2)
               else
                 (case body of
                    None \<Rightarrow> (None, api1, w2)
                  | Some member \<Rightarrow>
                      (case fetch (GetMemberSessions (accessToken api1) memberId) w2 of
                         (Rejected, w3) \<Rightarrow> (None, api1, w3)
                       | (Response st3 body3, w3) \<Rightarrow>
                           (case payload_or_empty st3 body3 of
                              None \<Rightarrow> (None, api1, w3)
                            | Some sessionsData \<Rightarrow>
                                (case fetch (GetMemberMemberships (accessToken api1) memberId) w3 of
                                   (Rejected, w4) \<Rightarrow> (None, api1, w4)
                                 | (Response st4 body4, w4) \<Rightarrow>
                                     (case payload_or_empty st4 body4 of
                                        None \<Rightarrow> (None, api1, w4)
                                      | Some membershipsData \<Rightarrow>
                                          if nullish sessionsData \<or> nullish membershipsData
                                          then (None, api1, w4)
                                          else
                                            (Some
                                               \<lparr>memberData = member,
                                                sessions = js_or (js_prop sessionsData ''payload'') (JArr []),
                                                activeMemberships =
                                                  js_or (js_prop membershipsData ''payload'') (JArr []),
                                                totalSessions =
                                                  js_prop (js_or (js_prop sessionsData ''payload'') (JArr []))
                                                    ''length'',
                                                totalMemberships =
                                                  js_prop (js_or (js_prop membershipsData ''payload'') (JArr []))
                                                    ''length''\<rparr>,
                                             api1, w4))))))))"
  by pat_completeness auto
termination
proof (relation "measure (\<lambda>(memberId, api, w). length (script w))", goal_cases)
  case 1
  show ?case by simp
next
  case (2 memberId api w x y xa ya xb yb x21 x22 xc yc xd yd)
  from 2(1,2) have a: "length (script ya) \<le> length (script w)"
    by (auto dest: ensure_token_script_le [OF sym])
  from 2(3,4) have b: "length (script yb) < length (script ya)"
    by (auto dest: fetch_response_lt [OF sym])
  from 2(6,7) have c: "length (script yd) \<le> length (script yb)"
    by (auto dest: refreshAccessToken_script_le [OF sym])
  from a b c show ?case by simp
qed

declare getCustomerById.simps [simp del]

function getCustomerBookings ::
  "string \<Rightarrow> momence_api \<Rightarrow> world \<Rightarrow> jsval \<times> momence_api \<times> world" where
  "getCustomerBookings memberId api w =
     (case (if \<not> truthy (accessToken api) then authenticate api w else (True, api, w)) of
        (authSuccess, api1, w1) \<Rightarrow>
          (case fetch (GetMemberBookings (accessToken api1) memberId) w1 of
             (Rejected, w2) \<Rightarrow> (JArr [], api1, w2)
           | (Response st body, w2) \<Rightarrow>
               if st = 401 then
                 (case refreshAccessToken api1 w2 of
                    (refreshSuccess, api3, w3) \<Rightarrow> getCustomerBookings memberId api3 w3)
               else if \<not> response_ok st then (JArr [], api1, w2)
               else
                 (case body of
                    None \<Rightarrow> (JArr [], api1, w2)
                  | Some data \<Rightarrow>
                      if nullish data then (JArr [], api1, w2)
                      else (js_or (js_prop data ''payload'') (JArr []), api1, w2))))"
  by pat_completeness auto
termination
proof (relation "measure (\<lambda>(memberId, api, w). length (script w))", goal_cases)
  case 1
  show ?case by simp
next
  case (2 memberId api w x y xa ya xb yb x21 x22 xc yc xd yd)
  from 2(1,2) have a: "length (script ya) \<le> length (script w)"
    by (auto dest: ensure_token_script_le [OF sym])
  from 2(3,4) have b: "length (script yb) < length (script ya)"
    by (auto dest: fetch_response_lt [OF sym])
  from 2(6,7) have c: "length (script yd) \<le> length (script yb)"
    by (auto dest: refreshAccessToken_script_le [OF sym])
  from a b c show ?case by simp
qed

declare getCustomerBookings.simps [simp del]

subsection \<open>Session operations\<close>

text \<open>
  Time values follow ECMAScript: \<open>Day\<close> and \<open>TimeWithinDay\<close> split a time value,
  \<open>MakeDate\<close> joins them again, \<open>LocalTime\<close> turns an instant into local time with the
  offset at that instant, and \<open>UTC\<close> turns a local time back with the offset in force
  at that local time.
\<close>

definition msPerDay :: int where
  "msPerDay = 86400000"

definition Day :: "int \<Rightarrow> int" where
  "Day t = t div msPerDay"

definition TimeWithinDay :: "int \<Rightarrow> int" where
  "TimeWithinDay t = t mod msPerDay"

definition MakeDate :: "int \<Rightarrow> int \<Rightarrow> int" where
  "MakeDate day time = day * msPerDay + time"

definition LocalTime :: "(int \<Rightarrow> bool \<Rightarrow> int) \<Rightarrow> int \<Rightarrow> int" where
  "LocalTime tza t = t + tza t True"

definition UTC :: "(int \<Rightarrow> bool \<Rightarrow> int) \<Rightarrow> int \<Rightarrow> int" where
  "UTC tza t = t - tza t False"

text \<open>
  \<open>tomorrow.setDate(tomorrow.getDate() + 1)\<close>: the day of the month of the local time
  goes up by one, which is the next day number (\<open>MakeDay\<close> carries into the next month),
  the time within the day is kept, and the result is turned back to UTC.
\<close>

definition setDate_plus_one :: "(int \<Rightarrow> bool \<Rightarrow> int) \<Rightarrow> int \<Rightarrow> int" where
  "setDate_plus_one tza tv =
     (let t = LocalTime tza tv;
          newDate = MakeDate (Day t + 1) (TimeWithinDay t)
      in UTC tza newDate)"

text \<open>
  Lines 413-415. \<open>toISOString()\<close> prints the UTC date and time and, after its only
  \<open>.\<close>, the milliseconds; \<open>split('.')[0]\<close> keeps the text of the whole second, to which
  \<open>Z\<close> is appended.
\<close>

definition default_startsBefore :: "world \<Rightarrow> starts_before" where
  "default_startsBefore w =
     (let tomorrow = setDate_plus_one (localTZA w) (clock w)
      in IsoSeconds (tomorrow div 1000))"

fun truthy_starts_before :: "starts_before option \<Rightarrow> bool" where
  "truthy_starts_before None = False"
| "truthy_starts_before (Some (Literal s)) = (s \<noteq> [])"
| "truthy_starts_before (Some (IsoSeconds n)) = True"

definition empty_envelope :: jsval where
  "empty_envelope =
     JObj [(''payload'', JArr []),
           (''pagination'',
            JObj [(''totalCount'', JNum 0), (''page'', JNum 0), (''pageSize'', JNum 0)])]"

definition location_param :: "string option \<Rightarrow> string option" where
  "location_param locationId = (if truthy_string locationId then locationId else None)"

function getSessions ::
  "nat \<Rightarrow> nat \<Rightarrow> starts_before option \<Rightarrow> string option \<Rightarrow> momence_api \<Rightarrow> world
   \<Rightarrow> jsval \<times> momence_api \<times> world" where
  "getSessions page pageSize startsBefore locationId api w =
     (if credentials_missing api then (empty_envelope, api, w)
      else
        (case (if \<not> truthy (accessToken api) then authenticate api w else (True, api, w)) of
           (False, api1, w1) \<Rightarrow> (empty_envelope, api1, w1)
         | (True, api1, w1) \<Rightarrow>
             (case fetch
                     (GetSessions (accessToken api1) page pageSize
                        (if truthy_starts_before startsBefore then the startsBefore
                         else default_startsBefore w1)
                        (location_param locationId)) w1 of
                (Rejected, w2) \<Rightarrow> (empty_envelope, api1, w2)
              | (Response st body, w2) \<Rightarrow>
                  if st = 401 then
                    (case refreshAccessToken api1 w2 of
                       (True, api3, w3) \<Rightarrow>
                         getSessions page pageSize
                           (Some (if truthy_starts_before startsBefore then the startsBefore
                                  else default_startsBefore w1))
                           locationId api3 w3
                     | (False, api3, w3) \<Rightarrow> (empty_envelope, api3, w3))
                  else if \<not> response_ok st then (empty_envelope, api1, w2)
                  else
                    (case body of
                       None \<Rightarrow> (empty_envelope, api1, w2)
                     | Some data \<Rightarrow>
                         if nullish data then (empty_envelope, api1, w2)
                         else (data, api1, w2)))))"
  by pat_completeness auto
termination
proof (relation "measure (\<lambda>(page, pageSize, startsBefore, locationId, api, w). length (script w))",
    goal_cases)
  case 1
  show ?case by simp
next
  case (2 page pageSize startsBefore locationId api w x y xa ya xb yb x21 x22 xc yc xd yd)
  from 2(2,4) have a: "length (script ya) \<le> length (script w)"
    by (auto dest: ensure_token_script_le [OF sym])
  from 2(5,6) have b: "length (script yb) < length (script ya)"
    by (auto dest: fetch_response_lt [OF sym])
  from 2(8,10) have c: "length (script yd) \<le> length (script yb)"
    by (auto dest: refreshAccessToken_script_le [OF sym])
  from a b c show ?case by simp
qed

declare getSessions.simps [simp del]

function getSessionById ::
  "string \<Rightarrow> momence_api \<Rightarrow> world \<Rightarrow> jsval \<times> momence_api \<times> world" where
  "getSessionById sessionId api w =
     (if credentials_missing api then (JNull, api, w)
      else
        (case (if \<not> truthy (accessToken api) then authenticate api w else (True, api, w)) of
           (False, api1, w1) \<Rightarrow> (JNull, api1, w1)
         | (True, api1, w1) \<Rightarrow>
             (case fetch (GetSession (accessToken api1) sessionId) w1 of
                (Rejected, w2) \<Rightarrow> (JNull, api1, w2)
              | (Response st body, w2) \<Rightarrow>
                  if st = 401 then
                    (case refreshAccessToken api1 w2 of
                       (True, api3, w3) \<Rightarrow> getSessionById sessionId api3 w3
                     | (False, api3, w3) \<Rightarrow> (JNull, api3, w3))
                  else if \<not> response_ok st then (JNull, api1, w2)
                  else
                    (case body of
                       None \<Rightarrow> (JNull, api1, w2)
                     | Some data \<Rightarrow> (data, api1, w2)))))"
  by pat_completeness auto
termination
proof (relation "measure (\<lambda>(sessionId, api, w). length (script w))", goal_cases)
  case 1
  show ?case by simp
next
  case (2 sessionId api w x y xa ya xb yb x21 x22 xc yc xd yd)
  from 2(2,4) have a: "length (script ya) \<le> length (script w)"
    by (auto dest: ensure_token_script_le [OF sym])
  from 2(5,6) have b: "length (script yb) < length (script ya)"
    by (auto dest: fetch_response_lt [OF sym])
  from 2(8,10) have c: "length (script yd) \<le> length (script yb)"
    by (auto dest: refreshAccessToken_script_le [OF sym])
  from a b c show ?case by simp
qed

declare getSessionById.simps [simp del]

subsection \<open>Aggregation (getAllSessionsWithDetails)\<close>









subsection \<open>Location names (getLocationId)\<close>

definition locationMap :: "(string \<times> string) list" where
  "locationMap =
     [(''Kwality House'', ''9030''),
      (''Supreme HQ, Bandra'', ''29821''),
      (''Supreme HQ Bandra'', ''29821''),
      (''Kwality House, Kemps Corner'', ''9030'')]"

text \<open>
  Strings are lists of 8-bit characters; \<open>toLowerCase\<close> is modelled on the ASCII
  letters, the only letters of the table's keys.
\<close>

definition lower_char :: "char \<Rightarrow> char" where
  "lower_char c =
     (case map_of (zip ''ABCDEFGHIJKLMNOPQRSTUVWXYZ'' ''abcdefghijklmnopqrstuvwxyz'') c of
        Some l \<Rightarrow> l
      | None \<Rightarrow> c)"

definition toLowerCase :: "string \<Rightarrow> string" where
  "toLowerCase s = map lower_char s"

text \<open>\<open>s.includes(t)\<close>: \<open>t\<close> occurs in \<open>s\<close> at some position.\<close>

fun js_includes :: "string \<Rightarrow> string \<Rightarrow> bool" where
  "js_includes [] t = (t = [])"
| "js_includes (c # s) t = (prefix t (c # s) \<or> js_includes s t)"

text \<open>The \<open>for\<close> loop of lines 629-633 over \<open>Object.entries(locationMap)\<close>.\<close>

fun first_entry_within :: "string \<Rightarrow> (string \<times> string) list \<Rightarrow> string option" where
  "first_entry_within lowerName [] = None"
| "first_entry_within lowerName ((key, value) # entries) =
     (if js_includes lowerName (toLowerCase key) then Some value
      else first_entry_within lowerName entries)"

text \<open>
  What the function returns: \<open>undefined\<close>, an id of the table, or, when the name is the
  name of a member every object inherits, that member.
\<close>

datatype location_id = NoLocationId | LocationId string | InheritedMember string

text \<open>Lines 627-636: the substring search and the final \<open>undefined\<close>.\<close>

definition match_by_substring :: "string \<Rightarrow> location_id" where
  "match_by_substring locationName =
     (case first_entry_within (toLowerCase locationName) locationMap of
        Some v \<Rightarrow> LocationId v
      | None \<Rightarrow> NoLocationId)"

definition getLocationId :: "string option \<Rightarrow> location_id" where
  "getLocationId locationName =
     (if \<not> truthy_string locationName then NoLocationId
      else
        (case lookup_property browser_prototype_names locationMap (the locationName) of
           Own v \<Rightarrow> if v \<noteq> [] then LocationId v else match_by_substring (the locationName)
         | Inherited \<Rightarrow> InheritedMember (the locationName)
         | Missing \<Rightarrow> match_by_substring (the locationName)))"

subsection \<open>Counting what an operation sent\<close>

text \<open>
  The refresh attempts among the requests, and the attempts of a data operation: the
  request the operation starts with and repeats when it retries, here without its
  bearer token, so that two attempts are equal when they ask for the same thing.
\<close>

fun is_refresh :: "request \<Rightarrow> bool" where
  "is_refresh (RefreshGrant basic token) = True"
| "is_refresh r = False"

fun is_attempt :: "request \<Rightarrow> bool" where
  "is_attempt (GetMembers tok query) = True"
| "is_attempt (GetMember tok memberId) = True"
| "is_attempt (GetMemberBookings tok memberId) = True"
| "is_attempt (GetSessions tok page pageSize sb loc) = True"
| "is_attempt (GetSession tok sessionId) = True"
| "is_attempt r = False"

fun without_token :: "request \<Rightarrow> request" where
  "without_token (GetMembers tok query) = GetMembers JUndefined query"
| "without_token (GetMember tok memberId) = GetMember JUndefined memberId"
| "without_token (GetMemberSessions tok memberId) = GetMemberSessions JUndefined memberId"
| "without_token (GetMemberMemberships tok memberId) = GetMemberMemberships JUndefined memberId"
| "without_token (GetMemberBookings tok memberId) = GetMemberBookings JUndefined memberId"
| "without_token (GetSessions tok page pageSize sb loc) = GetSessions JUndefined page pageSize sb loc"
| "without_token (GetSession tok sessionId) = GetSession JUndefined sessionId"
| "without_token r = r"

definition refresh_attempts :: "request list \<Rightarrow> nat" where
  "refresh_attempts rs = length (filter is_refresh rs)"

definition attempts_sent :: "request list \<Rightarrow> request list" where
  "attempts_sent rs = map without_token (filter is_attempt rs)"





subsection \<open>The \<open>startsBefore\<close> values sent\<close>

text \<open>
  The \<open>startsBefore\<close> parameters of the sessions requests among the requests, and the
  value a call sends (its argument when that is truthy, else the default). Then two
  instants, in milliseconds: the start of the next UTC calendar day, which the
  specification names, and the instant at which the local clock shows, on the next
  local calendar day, the time of day it shows now (a day has 86400000 milliseconds).
\<close>

fun starts_before_sent :: "request list \<Rightarrow> starts_before list" where
  "starts_before_sent [] = []"
| "starts_before_sent (GetSessions tok page pageSize sb loc # rs) = sb # starts_before_sent rs"
| "starts_before_sent (r # rs) = starts_before_sent rs"

definition effective_starts_before :: "starts_before option \<Rightarrow> world \<Rightarrow> starts_before" where
  "effective_starts_before sb w =
     (if truthy_starts_before sb then the sb else default_startsBefore w)"

definition start_of_next_utc_day :: "int \<Rightarrow> int" where
  "start_of_next_utc_day t = (t div 86400000 + 1) * 86400000"

definition same_time_next_local_day :: "(int \<Rightarrow> bool \<Rightarrow> int) \<Rightarrow> int \<Rightarrow> int" where
  "same_time_next_local_day tza now =
     (now + tza now True + 86400000) - tza (now + tza now True + 86400000) False"

section \<open>Properties of the routing decision engine\<close>

text \<open>
  Claim C1. A ticket whose subcategory has an entry in the override table should get
  the entry's department and priority whatever the classifier answers. The category
  default of lines 118-124 runs after the override and writes the department again when
  the confidence is below the threshold: subcategory \<open>Theft\<close> in category
  \<open>Health & Safety\<close>, with a classifier answer of confidence one half, ends in
  department \<open>Operations\<close>, not \<open>Security\<close>. The priority is the table's.
\<close>

theorem theft_override_lost_to_category_default:
  "analyze_ticket (Some ''key'') ''POST''
     (Inr \<lparr>title = ''Bag stolen'', description = ''Taken from a locker'',
            category = Some ''Health & Safety'', subcategory = Some ''Theft'',
            studioId = None\<rparr>)
     (HttpReply 200
        (Routing \<lparr>department = Some ''Security'', priority = Some ''low'', suggestedTags = [],
                   needsEscalation = False, escalationReason = None,
                   routingConfidence = Some (1 / 2), analysis = None\<rparr>))
   = \<lparr>status = 200, error = None,
      decision =
        Some \<lparr>department = Some ''Operations'', priority = Some ''critical'',
               suggestedTags = [], needsEscalation = False, escalationReason = None,
               routingConfidence = Some (1 / 2), analysis = None\<rparr>,
      other_body = None\<rparr>"
  by (simp add: analyze_ticket_def try_route_def response_ok_def
      apply_category_default_def apply_subcategory_override_def lookup_property_def
      SUBCATEGORY_ROUTING_def CATEGORY_ROUTING_def confidence_threshold_def)

text \<open>
  Claim C4. Every failure of the classification call, a malformed response among them,
  should end in status 200 with the fallback decision. A completion whose content is
  \<open>null\<close> is malformed and raises no error: for a ticket without category and
  subcategory the handler answers 200 with the body \<open>null\<close>, no decision and no error
  message.
\<close>

theorem null_content_is_sent_back:
  "analyze_ticket (Some ''key'') ''POST''
     (Inr \<lparr>title = ''Broken mirror'', description = ''Studio two'', category = None,
            subcategory = None, studioId = None\<rparr>)
     (HttpReply 200 (NotAnObject NullContent))
   = \<lparr>status = 200, error = None, decision = None, other_body = Some NullContent\<rparr>
   \<and> decision
        (analyze_ticket (Some ''key'') ''POST''
           (Inr \<lparr>title = ''Broken mirror'', description = ''Studio two'', category = None,
                  subcategory = None, studioId = None\<rparr>)
           (HttpReply 200 (NotAnObject NullContent)))
      \<noteq> Some fallback_routing"
  by (simp add: analyze_ticket_def try_route_def response_ok_def override_writes_def
      category_found_def)

text \<open>
  Claim C4, as the code has it. The handler always answers with status 200. Whenever
  the classification call raises an error (the fetch rejects, the status is not a
  success, or the body or its content cannot be read), and also when the request body
  cannot be read or the API key is missing, the answer is the fixed fallback decision
  with an error message. Content that parses to a value that is not an object gets the
  fallback only when the value is not an array and an entry of the tables applies to the
  ticket; otherwise the handler sends the value back as it is.
\<close>

theorem classifier_error_gives_fallback:
  assumes "req_method \<noteq> ''OPTIONS''"
  shows "status (analyze_ticket key req_method req_json reply) = 200
       \<and> (classifier_failed reply \<longrightarrow>
            decision (analyze_ticket key req_method req_json reply) = Some fallback_routing
            \<and> other_body (analyze_ticket key req_method req_json reply) = None
            \<and> error (analyze_ticket key req_method req_json reply) \<noteq> None)
       \<and> (response_ok st \<and> key \<noteq> None \<and> key \<noteq> Some [] \<longrightarrow>
            analyze_ticket key req_method (Inr req) (HttpReply st (NotAnObject v))
            = (if is_array v \<or> \<not> table_entry_applies req
               then \<lparr>status = 200, error = None, decision = None, other_body = Some v\<rparr>
               else \<lparr>status = 200, error = Some PropertyTypeError,
                     decision = Some fallback_routing, other_body = None\<rparr>))
       \<and> fallback_routing =
           \<lparr>department = Some ''Operations'', priority = Some ''medium'', suggestedTags = [],
            needsEscalation = False, escalationReason = None, routingConfidence = Some 0,
            analysis = Some ''Auto-routing failed, using default assignment''\<rparr>"
proof -
  have always: "status (analyze_ticket key req_method req_json reply) = 200"
    by (simp add: analyze_ticket_def split: sum.splits)
  have failed: "classifier_failed reply \<Longrightarrow>
      decision (analyze_ticket key req_method req_json reply) = Some fallback_routing
      \<and> other_body (analyze_ticket key req_method req_json reply) = None
      \<and> error (analyze_ticket key req_method req_json reply) \<noteq> None"
    using assms
    by (cases reply rule: classifier_failed.cases)
       (auto simp: analyze_ticket_def try_route_def split: sum.splits)
  have sub: "override_writes (subcategory req)
      \<longleftrightarrow> (case subcategory req of
             None \<Rightarrow> False
           | Some sub \<Rightarrow> sub \<noteq> [] \<and> map_of SUBCATEGORY_ROUTING sub \<noteq> None)"
    by (auto simp: override_writes_def lookup_property_def SUBCATEGORY_ROUTING_def
        split: option.splits if_splits)
  have cat: "category_found (category req)
      \<longleftrightarrow> (case category req of
             None \<Rightarrow> False
           | Some cat \<Rightarrow>
               cat \<noteq> [] \<and> (map_of CATEGORY_ROUTING cat \<noteq> None
                 \<or> cat \<in> set object_prototype_names))"
    by (auto simp: category_found_def lookup_property_def split: option.splits)
  have applies: "override_writes (subcategory req) \<or> category_found (category req)
      \<longleftrightarrow> table_entry_applies req"
    unfolding sub cat table_entry_applies_def by simp
  have other: "response_ok st \<Longrightarrow> key \<noteq> None \<Longrightarrow> key \<noteq> Some [] \<Longrightarrow>
      analyze_ticket key req_method (Inr req) (HttpReply st (NotAnObject v))
      = (if is_array v \<or> \<not> table_entry_applies req
         then \<lparr>status = 200, error = None, decision = None, other_body = Some v\<rparr>
         else \<lparr>status = 200, error = Some PropertyTypeError,
               decision = Some fallback_routing, other_body = None\<rparr>)"
    using assms applies
    by (cases v; cases key) (auto simp: analyze_ticket_def try_route_def)
  from always failed other show ?thesis by (simp add: fallback_routing_def)
qed

theorem classifier_error_gives_fallback_witness:
  "decision (analyze_ticket (Some ''key'') ''POST''
             (Inr \<lparr>title = ''t'', description = ''d'', category = None, subcategory = None,
                    studioId = None\<rparr>)
             (HttpReply 500 (Unreadable ''Internal Server Error''))) = Some fallback_routing
   \<and> analyze_ticket (Some ''key'') ''POST''
        (Inr \<lparr>title = ''t'', description = ''d'', category = Some ''Global'',
               subcategory = None, studioId = None\<rparr>)
        (HttpReply 200 (NotAnObject (NumberContent 5)))
      = \<lparr>status = 200, error = Some PropertyTypeError, decision = Some fallback_routing,
         other_body = None\<rparr>
   \<and> analyze_ticket (Some ''key'') ''POST''
        (Inr \<lparr>title = ''t'', description = ''d'', category = Some ''Global'',
               subcategory = None, studioId = None\<rparr>)
        (HttpReply 200 (NotAnObject (ArrayContent [])))
      = \<lparr>status = 200, error = None, decision = None, other_body = Some (ArrayContent [])\<rparr>"
proof -
  have m: "''POST'' \<noteq> ''OPTIONS''" by simp
  have f: "classifier_failed (HttpReply 500 (Unreadable ''Internal Server Error''))" by simp
  have g: "table_entry_applies
             \<lparr>title = ''t'', description = ''d'', category = Some ''Global'',
              subcategory = None, studioId = None\<rparr>"
    by (simp add: table_entry_applies_def CATEGORY_ROUTING_def)
  show ?thesis
    using f g
      classifier_error_gives_fallback [OF m, of "Some ''key''"
        "Inr \<lparr>title = ''t'', description = ''d'', category = None, subcategory = None,
               studioId = None\<rparr>"
        "HttpReply 500 (Unreadable ''Internal Server Error'')" 200
        "\<lparr>title = ''t'', description = ''d'', category = Some ''Global'',
          subcategory = None, studioId = None\<rparr>" "NumberContent 5"]
      classifier_error_gives_fallback [OF m, of "Some ''key''"
        "Inr \<lparr>title = ''t'', description = ''d'', category = None, subcategory = None,
               studioId = None\<rparr>"
        "HttpReply 500 (Unreadable ''Internal Server Error'')" 200
        "\<lparr>title = ''t'', description = ''d'', category = Some ''Global'',
          subcategory = None, studioId = None\<rparr>" "ArrayContent []"]
    by (simp add: response_ok_def)
qed

section \<open>Properties of the ticket submission\<close>

text \<open>
  Claim C5. On the scale low, medium, high, critical (positions 0 to 3 of
  \<open>priorityOrder\<close>), a user priority at position \<open>i\<close> and a decision priority at
  position \<open>j\<close> give the decision's priority when \<open>i < j\<close> and keep the user's
  otherwise; the stored priority is never below the user's.
\<close>

theorem submit_priority_never_downgrades:
  assumes "i < 4" and "j < 4"
    and "priority aiRouting = Some (priorityOrder ! j)"
  shows "submit_priority (Some aiRouting) (priorityOrder ! i) =
           (if i < j then priorityOrder ! j else priorityOrder ! i)"
proof -
  from assms(1) have ci: "i = 0 \<or> i = 1 \<or> i = 2 \<or> i = 3" by arith
  from assms(2) have cj: "j = 0 \<or> j = 1 \<or> j = 2 \<or> j = 3" by arith
  from ci cj assms(3) show ?thesis
    by (elim disjE) (simp_all add: submit_priority_def priorityOrder_def)
qed

theorem submit_priority_never_downgrades_witness:
  "submit_priority (Some (fallback_routing\<lparr>priority := Some ''critical''\<rparr>)) ''medium'' = ''critical''
   \<and> submit_priority (Some (fallback_routing\<lparr>priority := Some ''low''\<rparr>)) ''high'' = ''high''"
proof -
  have up: "priority (fallback_routing\<lparr>priority := Some ''critical''\<rparr>) = Some (priorityOrder ! 3)"
    by (simp add: priorityOrder_def)
  have down: "priority (fallback_routing\<lparr>priority := Some ''low''\<rparr>) = Some (priorityOrder ! 0)"
    by (simp add: priorityOrder_def)
  have a: "(1::nat) < 4" and b: "(3::nat) < 4" and c: "(2::nat) < 4" and d: "(0::nat) < 4"
    by simp_all
  show ?thesis
    using submit_priority_never_downgrades [OF a b up]
      submit_priority_never_downgrades [OF c d down]
    by (simp add: priorityOrder_def)
qed

section \<open>Properties of the member normalisation\<close>

text \<open>
  Claim C6. The membership status is \<open>inactive\<close> without a membership; else \<open>frozen\<close>
  when the frozen flag is set, whatever the end date; else \<open>expired\<close> when the end date
  lies before the current time; else \<open>active\<close>. In particular a membership without an
  end date is never \<open>expired\<close>.
\<close>

theorem membership_status_order:
  "getMembershipStatus now None = ''inactive''
   \<and> (isFrozen m \<longrightarrow> getMembershipStatus now (Some m) = ''frozen'')
   \<and> (\<not> isFrozen m \<and> endDate m = Some (TimeValue t) \<and> t < now
        \<longrightarrow> getMembershipStatus now (Some m) = ''expired'')
   \<and> (\<not> isFrozen m \<and> \<not> (\<exists>t. endDate m = Some (TimeValue t) \<and> t < now)
        \<longrightarrow> getMembershipStatus now (Some m) = ''active'')
   \<and> (endDate m = None \<longrightarrow> getMembershipStatus now (Some m) \<noteq> ''expired'')"
proof -
  have "\<not> isFrozen m \<Longrightarrow> \<not> (\<exists>t. endDate m = Some (TimeValue t) \<and> t < now)
        \<Longrightarrow> getMembershipStatus now (Some m) = ''active''"
  proof -
    assume nf: "\<not> isFrozen m" and np: "\<not> (\<exists>t. endDate m = Some (TimeValue t) \<and> t < now)"
    show ?thesis
    proof (cases "endDate m")
      case None
      with nf show ?thesis by (simp add: getMembershipStatus_def)
    next
      case (Some d)
      with nf np show ?thesis by (cases d) (simp_all add: getMembershipStatus_def)
    qed
  qed
  then show ?thesis by (auto simp: getMembershipStatus_def)
qed

theorem membership_status_order_witness:
  "getMembershipStatus 1000 (Some \<lparr>isFrozen = True, endDate = Some (TimeValue 5)\<rparr>) = ''frozen''
   \<and> getMembershipStatus 1000 (Some \<lparr>isFrozen = False, endDate = Some (TimeValue 5)\<rparr>) = ''expired''
   \<and> getMembershipStatus 1000 (Some \<lparr>isFrozen = False, endDate = None\<rparr>) = ''active''"
  using membership_status_order [of 1000 "\<lparr>isFrozen = True, endDate = Some (TimeValue 5)\<rparr>" 5]
    membership_status_order [of 1000 "\<lparr>isFrozen = False, endDate = Some (TimeValue 5)\<rparr>" 5]
    membership_status_order [of 1000 "\<lparr>isFrozen = False, endDate = None\<rparr>" 5]
  by simp

section \<open>Properties of the Momence client\<close>

subsection \<open>Token manager\<close>

text \<open>
  Claim C10. Given a successful token response, \<open>authenticate\<close> stores the refresh
  token from either field name: the value of \<open>refresh_token\<close> when that is truthy, and
  else the value of \<open>refreshToken\<close>. \<open>refreshAccessToken\<close> stores the value of
  \<open>refreshToken\<close> only. So a response that carries the refresh token under
  \<open>refresh_token\<close> only leaves the stored refresh token \<open>undefined\<close> after a refresh,
  while \<open>authenticate\<close>, given the same response, stores the token.
\<close>

theorem refresh_loses_refresh_token:
  assumes "script w = Response st (Some data) # rest" and "response_ok st"
    and "\<not> nullish data"
    and "\<not> credentials_missing api"
  shows "fst (authenticate api w) \<and> fst (refreshAccessToken api w)
       \<and> (truthy (js_prop data ''refresh_token'') \<longrightarrow>
            refreshToken (fst (snd (authenticate api w))) = js_prop data ''refresh_token'')
       \<and> (\<not> truthy (js_prop data ''refresh_token'') \<longrightarrow>
            refreshToken (fst (snd (authenticate api w))) = js_prop data ''refreshToken'')
       \<and> refreshToken (fst (snd (refreshAccessToken api w))) = js_prop data ''refreshToken''
       \<and> (truthy (js_prop data ''refresh_token'') \<and> js_prop data ''refreshToken'' = JUndefined \<longrightarrow>
            refreshToken (fst (snd (refreshAccessToken api w))) = JUndefined
            \<and> refreshToken (fst (snd (authenticate api w))) = js_prop data ''refresh_token'')"
  using assms by (simp add: refreshAccessToken_def authenticate_def fetch_def js_or_def)

theorem refresh_loses_refresh_token_witness:
  "refreshToken (fst (snd (refreshAccessToken
      \<lparr>accessToken = JStr ''t0'', refreshToken = JStr ''r0'',
        baseURL = ''https://api.momence.com/api/v2'', authToken = ''basic'',
        username = ''user'', password = ''pass''\<rparr>
      \<lparr>script = [Response 200 (Some (JObj [(''access_token'', JStr ''t1''),
                                            (''refresh_token'', JStr ''r1'')]))],
       requests = [], clock = 0, localTZA = (\<lambda>t isUTC. 0)\<rparr>))) = JUndefined
   \<and> refreshToken (fst (snd (authenticate
      \<lparr>accessToken = JStr ''t0'', refreshToken = JStr ''r0'',
        baseURL = ''https://api.momence.com/api/v2'', authToken = ''basic'',
        username = ''user'', password = ''pass''\<rparr>
      \<lparr>script = [Response 200 (Some (JObj [(''access_token'', JStr ''t1''),
                                            (''refresh_token'', JStr ''r1'')]))],
       requests = [], clock = 0, localTZA = (\<lambda>t isUTC. 0)\<rparr>))) = JStr ''r1''
   \<and> refreshToken (fst (snd (authenticate
      \<lparr>accessToken = JStr ''t0'', refreshToken = JStr ''r0'',
        baseURL = ''https://api.momence.com/api/v2'', authToken = ''basic'',
        username = ''user'', password = ''pass''\<rparr>
      \<lparr>script = [Response 200 (Some (JObj [(''access_token'', JStr ''t2''),
                                            (''refreshToken'', JStr ''r2'')]))],
       requests = [], clock = 0, localTZA = (\<lambda>t isUTC. 0)\<rparr>))) = JStr ''r2''"
proof -
  let ?api = "\<lparr>accessToken = JStr ''t0'', refreshToken = JStr ''r0'',
        baseURL = ''https://api.momence.com/api/v2'', authToken = ''basic'',
        username = ''user'', password = ''pass''\<rparr>"
  let ?snake = "JObj [(''access_token'', JStr ''t1''), (''refresh_token'', JStr ''r1'')]"
  let ?camel = "JObj [(''access_token'', JStr ''t2''), (''refreshToken'', JStr ''r2'')]"
  let ?w1 = "\<lparr>script = [Response 200 (Some ?snake)], requests = [], clock = 0, localTZA = (\<lambda>t isUTC. 0)\<rparr>"
  let ?w2 = "\<lparr>script = [Response 200 (Some ?camel)], requests = [], clock = 0, localTZA = (\<lambda>t isUTC. 0)\<rparr>"
  have s1: "script ?w1 = Response 200 (Some ?snake) # []" by simp
  have s2: "script ?w2 = Response 200 (Some ?camel) # []" by simp
  have ok: "response_ok 200" by (simp add: response_ok_def)
  have n1: "\<not> nullish ?snake" and n2: "\<not> nullish ?camel" by simp_all
  have cr: "\<not> credentials_missing ?api" by (simp add: credentials_missing_def)
  show ?thesis
    using refresh_loses_refresh_token [OF s1 ok n1 cr]
      refresh_loses_refresh_token [OF s2 ok n2 cr]
    by simp
qed

subsection \<open>Missing credentials\<close>

text \<open>
  Claim C3. With a credential missing, an operation should return its empty value and
  send nothing. \<open>getCustomerById\<close> and \<open>getCustomerBookings\<close> have no such guard: on a
  client built without any environment variable they send their requests, with an empty
  bearer token, and return what the server answers.
\<close>

theorem unguarded_operations_send_without_credentials:
  "getCustomerById ''123'' (new_MomenceAPI None None None None)
     \<lparr>script = [Response 200 (Some (JObj [(''id'', JStr ''123'')])),
                Response 200 (Some (JObj [(''payload'', JArr [JObj [(''id'', JStr ''s1'')]])])),
                Response 404 None],
      requests = [], clock = 0, localTZA = (\<lambda>t isUTC. 0)\<rparr>
   = (Some \<lparr>memberData = JObj [(''id'', JStr ''123'')],
            sessions = JArr [JObj [(''id'', JStr ''s1'')]],
            activeMemberships = JArr [], totalSessions = JNum 1, totalMemberships = JNum 0\<rparr>,
      new_MomenceAPI None None None None,
      \<lparr>script = [],
       requests = [GetMember (JStr []) ''123'', GetMemberSessions (JStr []) ''123'',
                   GetMemberMemberships (JStr []) ''123''],
       clock = 0, localTZA = (\<lambda>t isUTC. 0)\<rparr>)
   \<and> getCustomerBookings ''123'' (new_MomenceAPI None None None None)
       \<lparr>script = [Response 200 (Some (JObj [(''payload'', JArr [JObj [(''id'', JStr ''b1'')]])]))],
        requests = [], clock = 0, localTZA = (\<lambda>t isUTC. 0)\<rparr>
     = (JArr [JObj [(''id'', JStr ''b1'')]],
        new_MomenceAPI None None None None,
        \<lparr>script = [], requests = [GetMemberBookings (JStr []) ''123''],
         clock = 0, localTZA = (\<lambda>t isUTC. 0)\<rparr>)"
  by (simp add: getCustomerById.simps getCustomerBookings.simps new_MomenceAPI_def
      or_default_def authenticate_def credentials_missing_def fetch_def response_ok_def
      payload_or_empty_def js_or_def)

subsection \<open>The default \<open>startsBefore\<close>\<close>

lemma starts_before_sent_append [simp]:
  "starts_before_sent (xs @ ys) = starts_before_sent xs @ starts_before_sent ys"
  by (induction xs rule: starts_before_sent.induct) simp_all

lemma fetch_frame:
  "fetch r w = (x, w1) \<Longrightarrow> requests w1 = requests w @ [r] \<and> clock w1 = clock w \<and> localTZA w1 = localTZA w"
  by (auto simp: fetch_def split: list.splits)

lemma authenticate_frame:
  "authenticate api w = (b, api1, w1) \<Longrightarrow>
     starts_before_sent (requests w1) = starts_before_sent (requests w) \<and> clock w1 = clock w \<and> localTZA w1 = localTZA w"
  by (auto simp: authenticate_def dest!: fetch_frame
      split: if_splits prod.splits response.splits option.splits)

lemma refreshAccessToken_frame:
  "refreshAccessToken api w = (b, api1, w1) \<Longrightarrow>
     starts_before_sent (requests w1) = starts_before_sent (requests w) \<and> clock w1 = clock w \<and> localTZA w1 = localTZA w"
  by (auto simp: refreshAccessToken_def dest!: fetch_frame
      split: if_splits prod.splits response.splits option.splits)

lemma ensure_token_frame:
  "(if \<not> truthy (accessToken api) then authenticate api w else (True, api, w)) = (b, api1, w1) \<Longrightarrow>
     starts_before_sent (requests w1) = starts_before_sent (requests w) \<and> clock w1 = clock w \<and> localTZA w1 = localTZA w"
  by (auto split: if_splits dest: authenticate_frame)

lemma effective_cong:
  "clock w1 = clock w \<Longrightarrow> localTZA w1 = localTZA w \<Longrightarrow>
   effective_starts_before sb w1 = effective_starts_before sb w"
  by (simp add: effective_starts_before_def default_startsBefore_def)

lemma effective_idem:
  "effective_starts_before (Some (effective_starts_before sb w)) w' = effective_starts_before sb w"
  by (cases sb rule: truthy_starts_before.cases)
     (simp_all add: effective_starts_before_def default_startsBefore_def)

lemma getSessions_no_token:
  assumes "\<not> credentials_missing api"
    and "(if \<not> truthy (accessToken api) then authenticate api w else (True, api, w)) = (False, api1, w1)"
  shows "getSessions page pageSize sb loc api w = (empty_envelope, api1, w1)"
  using assms by (subst getSessions.simps) simp

lemma getSessions_rejected:
  assumes "\<not> credentials_missing api"
    and "(if \<not> truthy (accessToken api) then authenticate api w else (True, api, w)) = (True, api1, w1)"
    and "fetch (GetSessions (accessToken api1) page pageSize (effective_starts_before sb w1)
           (location_param loc)) w1 = (Rejected, w2)"
  shows "getSessions page pageSize sb loc api w = (empty_envelope, api1, w2)"
  using assms by (subst getSessions.simps) (simp add: effective_starts_before_def)

lemma getSessions_answered:
  assumes "\<not> credentials_missing api"
    and "(if \<not> truthy (accessToken api) then authenticate api w else (True, api, w)) = (True, api1, w1)"
    and "fetch (GetSessions (accessToken api1) page pageSize (effective_starts_before sb w1)
           (location_param loc)) w1 = (Response st body, w2)"
    and "st \<noteq> 401"
  shows "snd (getSessions page pageSize sb loc api w) = (api1, w2)"
  using assms
  by (subst getSessions.simps) (simp add: effective_starts_before_def split: option.splits)

lemma getSessions_refresh_failed:
  assumes "\<not> credentials_missing api"
    and "(if \<not> truthy (accessToken api) then authenticate api w else (True, api, w)) = (True, api1, w1)"
    and "fetch (GetSessions (accessToken api1) page pageSize (effective_starts_before sb w1)
           (location_param loc)) w1 = (Response 401 body, w2)"
    and "refreshAccessToken api1 w2 = (False, api3, w3)"
  shows "getSessions page pageSize sb loc api w = (empty_envelope, api3, w3)"
  using assms by (subst getSessions.simps) (simp add: effective_starts_before_def)

lemma getSessions_retry:
  assumes "\<not> credentials_missing api"
    and "(if \<not> truthy (accessToken api) then authenticate api w else (True, api, w)) = (True, api1, w1)"
    and "fetch (GetSessions (accessToken api1) page pageSize (effective_starts_before sb w1)
           (location_param loc)) w1 = (Response 401 body, w2)"
    and "refreshAccessToken api1 w2 = (True, api3, w3)"
  shows "getSessions page pageSize sb loc api w
       = getSessions page pageSize (Some (effective_starts_before sb w1)) loc api3 w3"
  using assms by (subst getSessions.simps) (simp add: effective_starts_before_def)


lemma getSessions_sent:
  "\<exists>k. starts_before_sent (requests (snd (snd (getSessions page pageSize sb loc api w))))
          = starts_before_sent (requests w) @ replicate k (effective_starts_before sb w)
        \<and> (\<not> credentials_missing api \<and> truthy (accessToken api) \<longrightarrow> 0 < k)"
proof (induction "length (script w)" arbitrary: sb api w rule: less_induct)
  case less
  show ?case
  proof (cases "credentials_missing api")
    case True
    then have "getSessions page pageSize sb loc api w = (empty_envelope, api, w)"
      by (subst getSessions.simps) simp
    with True show ?thesis by (intro exI [of _ 0]) simp
  next
    case cred: False
    obtain b api1 w1 where
      e: "(if \<not> truthy (accessToken api) then authenticate api w else (True, api, w)) = (b, api1, w1)"
      by (rule prod_cases3)
    note f1 = ensure_token_frame [OF e]
    show ?thesis
    proof (cases b)
      case False
      with e have no_token: "\<not> truthy (accessToken api)" by (auto split: if_splits)
      from False cred e have "getSessions page pageSize sb loc api w = (empty_envelope, api1, w1)"
        by (simp add: getSessions_no_token)
      with f1 no_token show ?thesis by (intro exI [of _ 0]) simp
    next
      case True
      let ?p = "effective_starts_before sb w1"
      let ?r = "GetSessions (accessToken api1) page pageSize ?p (location_param loc)"
      have pw: "?p = effective_starts_before sb w"
        using f1 by (intro effective_cong) simp_all
      obtain x w2 where f: "fetch ?r w1 = (x, w2)" by (rule prod.exhaust)
      note f2 = fetch_frame [OF f]
      have one: "starts_before_sent (requests w2) = starts_before_sent (requests w) @ replicate 1 ?p"
        using f1 f2 by simp
      show ?thesis
      proof (cases x)
        case Rejected
        with cred e True f have "getSessions page pageSize sb loc api w = (empty_envelope, api1, w2)"
          by (simp add: getSessions_rejected)
        with one pw show ?thesis by (intro exI [of _ 1]) simp
      next
        case (Response st body)
        show ?thesis
        proof (cases "st = 401")
          case False
          with cred e True f Response have "snd (getSessions page pageSize sb loc api w) = (api1, w2)"
            by (simp add: getSessions_answered)
          with one pw show ?thesis by (intro exI [of _ 1]) simp
        next
          case st: True
          obtain ok api3 w3 where r: "refreshAccessToken api1 w2 = (ok, api3, w3)"
            by (rule prod_cases3)
          note f3 = refreshAccessToken_frame [OF r]
          show ?thesis
          proof (cases ok)
            case False
            with cred e True f Response st r
            have "getSessions page pageSize sb loc api w = (empty_envelope, api3, w3)"
              by (simp add: getSessions_refresh_failed)
            with one pw f3 show ?thesis by (intro exI [of _ 1]) simp
          next
            case ok: True
            have shorter: "length (script w3) < length (script w)"
              using ensure_token_script_le [OF e] fetch_response_lt [of ?r w1 st body w2]
                refreshAccessToken_script_le [OF r] f Response
              by simp
            from less [OF shorter] obtain k where
              k: "starts_before_sent (requests (snd (snd (getSessions page pageSize (Some ?p) loc api3 w3))))
                = starts_before_sent (requests w3) @ replicate k (effective_starts_before (Some ?p) w3)"
              by blast
            have unfold: "getSessions page pageSize sb loc api w
                = getSessions page pageSize (Some ?p) loc api3 w3"
              using cred e True f Response st r ok by (simp add: getSessions_retry)
            have "starts_before_sent (requests (snd (snd (getSessions page pageSize sb loc api w))))
                = starts_before_sent (requests w) @ replicate (Suc k) ?p"
              using k one f3 unfold by (simp add: effective_idem replicate_append_same)
            with pw show ?thesis by (intro exI [of _ "Suc k"]) simp
          qed
        qed
      qed
    qed
  qed
qed

lemma setDate_plus_one_eq: "setDate_plus_one tza tv = same_time_next_local_day tza tv"
proof -
  have "MakeDate (Day t + 1) (TimeWithinDay t) = t + 86400000" for t
    by (simp add: MakeDate_def Day_def TimeWithinDay_def msPerDay_def algebra_simps)
  then show ?thesis
    by (simp add: setDate_plus_one_def same_time_next_local_day_def LocalTime_def UTC_def
        Let_def)
qed

lemma first_second_of_day:
  "((t::int) + 86400000) div 1000 = (t div 86400000 + 1) * 86400000 div 1000
   \<longleftrightarrow> t mod 86400000 < 1000"
proof -
  define q where "q = t div 86400000"
  define r where "r = t mod 86400000"
  have t: "t = 86400000 * q + r" by (simp add: q_def r_def)
  have r0: "0 \<le> r" by (simp add: r_def)
  have "t + 86400000 = r + (86400 * (q + 1)) * 1000" by (simp add: t algebra_simps)
  then have "(t + 86400000) div 1000 = (r + (86400 * (q + 1)) * 1000) div 1000"
    by (rule arg_cong)
  also have "\<dots> = 86400 * (q + 1) + r div 1000" by (rule div_mult_self1) simp
  finally have l: "(t + 86400000) div 1000 = 86400 * (q + 1) + r div 1000" .
  have "(q + 1) * 86400000 = (86400 * (q + 1)) * 1000" by (simp add: algebra_simps)
  then have "(q + 1) * 86400000 div 1000 = (86400 * (q + 1)) * 1000 div 1000"
    by (rule arg_cong)
  also have "\<dots> = 86400 * (q + 1)" by (rule nonzero_mult_div_cancel_right) simp
  finally have rr: "(q + 1) * 86400000 div 1000 = 86400 * (q + 1)" .
  have z: "r div 1000 = 0 \<longleftrightarrow> r < 1000"
  proof
    assume zero: "r div 1000 = 0"
    show "r < 1000"
    proof (rule ccontr)
      assume "\<not> r < 1000"
      then have "1000 \<le> r" by simp
      then have "0 < r div 1000" by (simp add: pos_imp_zdiv_pos_iff)
      with zero show False by simp
    qed
  next
    assume "r < 1000"
    with r0 show "r div 1000 = 0" by (rule div_pos_pos_trivial)
  qed
  show ?thesis
    unfolding q_def [symmetric] r_def [symmetric] l rr using z by simp
qed

text \<open>
  Claim C8. With \<open>startsBefore\<close> unspecified the parameter should be the start of the
  next UTC calendar day. At 2024-01-15T10:30:45.123Z (clock 1705314645123), in a zone
  five and a half hours ahead of UTC, the client sends 2024-01-16T10:30:45Z (second
  1705401045), the same time of day one day later; the next UTC day starts at second
  1705363200.
\<close>

theorem default_startsBefore_keeps_time_of_day:
  "starts_before_sent (requests (snd (snd (getSessions 0 200 None None
      \<lparr>accessToken = JStr ''t0'', refreshToken = JStr ''r0'',
        baseURL = ''https://api.momence.com/api/v2'', authToken = ''basic'',
        username = ''user'', password = ''pass''\<rparr>
      \<lparr>script = [Response 200 (Some empty_envelope)], requests = [],
        clock = 1705314645123, localTZA = (\<lambda>t isUTC. 19800000)\<rparr>))))
   = [IsoSeconds 1705401045]
   \<and> start_of_next_utc_day 1705314645123 div 1000 = 1705363200
   \<and> IsoSeconds 1705401045 \<noteq> IsoSeconds (start_of_next_utc_day 1705314645123 div 1000)"
  by (simp add: getSessions.simps credentials_missing_def fetch_def default_startsBefore_def
      setDate_plus_one_def LocalTime_def UTC_def MakeDate_def Day_def TimeWithinDay_def
      msPerDay_def start_of_next_utc_day_def response_ok_def empty_envelope_def
      location_param_def)

text \<open>
  Claim C8, as the code has it. With \<open>startsBefore\<close> unspecified, every sessions
  request the call sends (the first and each retry) carries, cut to the whole second,
  the instant at which the local clock shows the current time of day on the next local
  calendar day; and a client that holds credentials and a token sends at least one.
  When the offset of local time is the same at both instants, that instant is 24 hours
  after the current time, and its whole second is the start of the next UTC calendar
  day exactly when the current time lies in the first second of a UTC day.
\<close>

theorem default_startsBefore_next_local_day:
  assumes "\<not> truthy_starts_before startsBefore"
  shows "(\<exists>k. starts_before_sent
               (requests (snd (snd (getSessions page pageSize startsBefore locationId api w))))
             = starts_before_sent (requests w)
               @ replicate k
                   (IsoSeconds (same_time_next_local_day (localTZA w) (clock w) div 1000))
           \<and> (\<not> credentials_missing api \<and> truthy (accessToken api) \<longrightarrow> 0 < k))
       \<and> (localTZA w (clock w + localTZA w (clock w) True + 86400000) False
            = localTZA w (clock w) True \<longrightarrow>
            same_time_next_local_day (localTZA w) (clock w) = clock w + 86400000
            \<and> (same_time_next_local_day (localTZA w) (clock w) div 1000
                 = start_of_next_utc_day (clock w) div 1000
               \<longleftrightarrow> clock w mod 86400000 < 1000))"
proof -
  from assms
  have "effective_starts_before startsBefore w
      = IsoSeconds (same_time_next_local_day (localTZA w) (clock w) div 1000)"
    by (simp add: effective_starts_before_def default_startsBefore_def setDate_plus_one_eq)
  with getSessions_sent [of page pageSize startsBefore locationId api w]
  have sent: "\<exists>k. starts_before_sent
               (requests (snd (snd (getSessions page pageSize startsBefore locationId api w))))
             = starts_before_sent (requests w)
               @ replicate k
                   (IsoSeconds (same_time_next_local_day (localTZA w) (clock w) div 1000))
           \<and> (\<not> credentials_missing api \<and> truthy (accessToken api) \<longrightarrow> 0 < k)"
    by simp
  have same: "same_time_next_local_day (localTZA w) (clock w) = clock w + 86400000"
    if "localTZA w (clock w + localTZA w (clock w) True + 86400000) False
        = localTZA w (clock w) True"
    using that by (simp add: same_time_next_local_day_def)
  from sent same first_second_of_day [of "clock w"] show ?thesis
    by (simp add: start_of_next_utc_day_def)
qed

theorem default_startsBefore_next_local_day_witness:
  "(\<exists>k. starts_before_sent (requests (snd (snd (getSessions 0 200 None None
      \<lparr>accessToken = JStr ''t0'', refreshToken = JStr ''r0'',
        baseURL = ''https://api.momence.com/api/v2'', authToken = ''basic'',
        username = ''user'', password = ''pass''\<rparr>
      \<lparr>script = [], requests = [], clock = 1705314645123,
        localTZA = (\<lambda>t isUTC. 19800000)\<rparr>))))
     = replicate k (IsoSeconds 1705401045) \<and> 0 < k)
   \<and> (\<exists>k. starts_before_sent (requests (snd (snd (getSessions 0 200 None None
      \<lparr>accessToken = JStr ''t0'', refreshToken = JStr ''r0'',
        baseURL = ''https://api.momence.com/api/v2'', authToken = ''basic'',
        username = ''user'', password = ''pass''\<rparr>
      \<lparr>script = [], requests = [], clock = 1772913600000,
        localTZA = (\<lambda>t isUTC. if isUTC then (if t < 1772953200000 then - 18000000 else - 14400000)
                                 else (if t < 1772938800000 then - 18000000 else - 14400000))\<rparr>))))
     = replicate k (IsoSeconds 1772996400) \<and> 0 < k)
   \<and> 1772996400 * 1000 - 1772913600000 = (23 * 3600000 :: int)"
proof -
  let ?api = "\<lparr>accessToken = JStr ''t0'', refreshToken = JStr ''r0'',
        baseURL = ''https://api.momence.com/api/v2'', authToken = ''basic'',
        username = ''user'', password = ''pass''\<rparr>"
  let ?india = "\<lparr>script = [], requests = [], clock = 1705314645123,
        localTZA = (\<lambda>t isUTC. 19800000)\<rparr>"
  let ?new_york = "\<lparr>script = [], requests = [], clock = 1772913600000,
        localTZA = (\<lambda>t isUTC. if isUTC then (if t < 1772953200000 then - 18000000 else - 14400000)
                                 else (if t < 1772938800000 then - 18000000 else - 14400000))\<rparr>"
  have n: "\<not> truthy_starts_before None" by simp
  have c: "\<not> credentials_missing ?api" by (simp add: credentials_missing_def)
  have a: "same_time_next_local_day (localTZA ?india) (clock ?india) div 1000 = 1705401045"
    by (simp add: same_time_next_local_day_def)
  have b: "same_time_next_local_day (localTZA ?new_york) (clock ?new_york) div 1000 = 1772996400"
    by (simp add: same_time_next_local_day_def)
  show ?thesis
    using default_startsBefore_next_local_day [OF n, of 0 200 None ?api ?india]
      default_startsBefore_next_local_day [OF n, of 0 200 None ?api ?new_york]
    unfolding a b using c by simp
qed

subsection \<open>Retry after 401\<close>

lemma refresh_attempts_simps [simp]:
  "refresh_attempts (xs @ ys) = refresh_attempts xs + refresh_attempts ys"
  "refresh_attempts (r # rs) = (if is_refresh r then 1 else 0) + refresh_attempts rs"
  "refresh_attempts [] = 0"
  by (simp_all add: refresh_attempts_def)

lemma attempts_sent_simps [simp]:
  "attempts_sent (xs @ ys) = attempts_sent xs @ attempts_sent ys"
  "attempts_sent (r # rs) = (if is_attempt r then [without_token r] else []) @ attempts_sent rs"
  "attempts_sent [] = []"
  by (simp_all add: attempts_sent_def)







lemma replicate_snoc_Cons: "xs @ x # replicate n x = xs @ replicate n x @ [x]"
  by (simp add: replicate_append_same)






























subsection \<open>Aggregation\<close>









subsection \<open>Location names\<close>

text \<open>
  Claim C9. A name that matches no key of the table should give \<open>undefined\<close>. The
  lookup \<open>locationMap[locationName]\<close> also finds the members the table inherits from
  \<open>Object.prototype\<close>: for the name \<open>toString\<close> the function returns that member, a
  truthy value that is neither an id nor \<open>undefined\<close>.
\<close>

theorem getLocationId_inherited_name:
  "getLocationId (Some ''toString'') = InheritedMember ''toString''"
  by (simp add: getLocationId_def lookup_property_def locationMap_def
      browser_prototype_names_def object_prototype_names_def)

section \<open>Further properties\<close>

text \<open>
  The part of claim C1 that holds throughout: for a subcategory of the override table the
  decision carries the table's priority, and it carries the table's department whenever
  the category default does not apply (no category, a category without an entry, or a
  confidence that is not below the threshold).
\<close>

theorem subcategory_override_without_category_default:
  assumes "map_of SUBCATEGORY_ROUTING sub = Some entry"
  shows "priority (apply_category_default cat (apply_subcategory_override (Some sub) ai))
           = sub_priority entry
       \<and> (\<not> truthy_string cat
            \<or> lookup_property object_prototype_names CATEGORY_ROUTING (the cat) = Missing
            \<or> \<not> below_threshold (routingConfidence ai)
          \<longrightarrow> department (apply_category_default cat (apply_subcategory_override (Some sub) ai))
                = Some (sub_department entry))"
proof -
  from assms have sub: "sub \<noteq> []" and dep: "sub_department entry \<noteq> []"
    and pri: "truthy_string (sub_priority entry)"
    by (auto simp: SUBCATEGORY_ROUTING_def split: if_splits)
  have own: "lookup_property object_prototype_names SUBCATEGORY_ROUTING sub = Own entry"
    using assms by (simp add: lookup_property_def)
  have over: "apply_subcategory_override (Some sub) ai
      = ai\<lparr>department := Some (sub_department entry), priority := sub_priority entry\<rparr>"
    using sub dep pri own by (simp add: apply_subcategory_override_def)
  show ?thesis
    unfolding over
    by (cases "lookup_property object_prototype_names CATEGORY_ROUTING (the cat)")
       (simp_all add: apply_category_default_def dep)
qed

theorem subcategory_override_without_category_default_witness:
  "priority (apply_category_default (Some ''Health & Safety'')
              (apply_subcategory_override (Some ''Theft'') fallback_routing)) = Some ''critical''
   \<and> department (apply_category_default None
              (apply_subcategory_override (Some ''Theft'') fallback_routing)) = Some ''Security''"
proof -
  have e: "map_of SUBCATEGORY_ROUTING ''Theft''
      = Some \<lparr>sub_department = ''Security'', sub_priority = Some ''critical''\<rparr>"
    by (simp add: SUBCATEGORY_ROUTING_def)
  show ?thesis
    using subcategory_override_without_category_default [OF e, of "Some ''Health & Safety''" fallback_routing]
      subcategory_override_without_category_default [OF e, of None fallback_routing]
    by simp
qed

text \<open>
  The part of claim C3 that holds: \<open>searchCustomers\<close>, \<open>getSessions\<close> and
  \<open>getSessionById\<close> return their empty value, with the client and the world (and so
  the requests sent) unchanged, when a credential is missing.
\<close>

theorem guarded_operations_send_nothing:
  assumes "credentials_missing api"
  shows "searchCustomers query api w = (JArr [], api, w)
       \<and> getSessions page pageSize startsBefore locationId api w = (empty_envelope, api, w)
       \<and> getSessionById sessionId api w = (JNull, api, w)"
  using assms by (simp add: searchCustomers.simps getSessions.simps getSessionById.simps)

theorem guarded_operations_send_nothing_witness:
  "searchCustomers ''ann'' (new_MomenceAPI None (Some ''basic'') None (Some ''pass''))
     \<lparr>script = [Response 200 None], requests = [], clock = 0, localTZA = (\<lambda>t isUTC. 0)\<rparr>
   = (JArr [], new_MomenceAPI None (Some ''basic'') None (Some ''pass''),
      \<lparr>script = [Response 200 None], requests = [], clock = 0, localTZA = (\<lambda>t isUTC. 0)\<rparr>)"
proof -
  have "credentials_missing (new_MomenceAPI None (Some ''basic'') None (Some ''pass''))"
    by (simp add: credentials_missing_def new_MomenceAPI_def or_default_def)
  from guarded_operations_send_nothing [OF this] show ?thesis by simp
qed

text \<open>
  The part of claim C9 that holds: an absent or empty name gives \<open>undefined\<close>, and a
  name that is not the name of an inherited member gives the id of its exact key; failing
  that, the id of the first key of the table whose lower-cased text occurs in the
  lower-cased name; failing that, \<open>undefined\<close>.
\<close>

lemma js_includes_sublist: "js_includes s t \<longleftrightarrow> sublist t s"
  by (induction s) (auto simp: sublist_Cons_right)

lemma first_entry_within_find:
  "first_entry_within lowerName entries
   = map_option snd (find (\<lambda>(key, value). sublist (toLowerCase key) lowerName) entries)"
  by (induction entries) (auto simp: js_includes_sublist)

theorem getLocationId_resolution:
  assumes "name \<notin> set browser_prototype_names"
  shows "getLocationId None = NoLocationId
       \<and> getLocationId (Some name)
         = (if name = [] then NoLocationId
            else
              (case map_of locationMap name of
                 Some v \<Rightarrow> LocationId v
               | None \<Rightarrow>
                   (case find (\<lambda>(key, value). sublist (toLowerCase key) (toLowerCase name))
                           locationMap of
                      Some (key, v) \<Rightarrow> LocationId v
                    | None \<Rightarrow> NoLocationId)))"
proof -
  have nonempty: "map_of locationMap name = Some v \<Longrightarrow> v \<noteq> []" for v
    by (auto simp: locationMap_def split: if_splits)
  show ?thesis
    using assms nonempty
    by (auto simp: getLocationId_def lookup_property_def match_by_substring_def
        first_entry_within_find split: option.splits)
qed

theorem getLocationId_resolution_witness:
  "getLocationId (Some ''Kwality House'') = LocationId ''9030''
   \<and> getLocationId (Some ''Studio at supreme hq bandra'') = LocationId ''29821''
   \<and> getLocationId (Some ''Pop Up'') = NoLocationId"
proof -
  have 1: "''Kwality House'' \<notin> set browser_prototype_names"
    and 2: "''Studio at supreme hq bandra'' \<notin> set browser_prototype_names"
    and 3: "''Pop Up'' \<notin> set browser_prototype_names"
    by (simp_all add: browser_prototype_names_def object_prototype_names_def)
  have a: "getLocationId (Some ''Kwality House'') = LocationId ''9030''"
    using getLocationId_resolution [OF 1] by (simp add: locationMap_def)
  have b: "getLocationId (Some ''Studio at supreme hq bandra'') = LocationId ''29821''"
    using getLocationId_resolution [OF 2]
    by (simp add: locationMap_def toLowerCase_def lower_char_def sublist_code)
  have c: "getLocationId (Some ''Pop Up'') = NoLocationId"
    using getLocationId_resolution [OF 3]
    by (simp add: locationMap_def toLowerCase_def lower_char_def sublist_code)
  from a b c show ?thesis by simp
qed

end
